theory Spec2Isabelle
  imports Main
begin

section \<open>Data model\<close>

text \<open>
  The client core of \<^verbatim>\<open>httpx/client.py\<close> works on the value types of
  \<^verbatim>\<open>httpx/models.py\<close>, \<^verbatim>\<open>httpx/exceptions.py\<close> and
  \<^verbatim>\<open>httpx/auth.py\<close>. Only \<^verbatim>\<open>client.py\<close> is available, so the
  value types follow the data model of the specification (section 3), and every
  operation of a collaborator whose result the client merely passes on (URL parsing
  and joining, the HSTS preload query, the netrc lookup, the dispatcher, the cookie
  jar) is a field of the record \<open>env\<close> below: the theorems hold for every choice
  of these.
\<close>

subsection \<open>Header names are compared case-insensitively\<close>

text \<open>
  \<^verbatim>\<open>str.lower\<close> on the ASCII range, which header names are in: the codes 65 to
  90 are the capital letters, and adding 32 to one of them sets bit 5.
\<close>

fun lower_char :: "char \<Rightarrow> char" where
  "lower_char (Char b0 b1 b2 b3 b4 b5 b6 b7) =
     (let n = (of_char (Char b0 b1 b2 b3 b4 b5 b6 b7) :: nat)
      in if 65 \<le> n \<and> n \<le> 90 then Char b0 b1 b2 b3 b4 True b6 b7
         else Char b0 b1 b2 b3 b4 b5 b6 b7)"

definition lower :: "string \<Rightarrow> string" where
  "lower s = map lower_char s"

definition same_name :: "string \<Rightarrow> string \<Rightarrow> bool" where
  "same_name a b \<longleftrightarrow> lower a = lower b"

text \<open>
  Modelled from the spec: the class \<^verbatim>\<open>Headers\<close> of \<^verbatim>\<open>models.py\<close>, which is
  not among the sources. The specification describes it as a "case-insensitive,
  order-preserving multimap from name to value list" whose deletion of a missing
  name is a no-op: here an association list from a name to the list of its values,
  in insertion order, every operation comparing names with \<open>same_name\<close>.
\<close>

type_synonym headers = "(string \<times> string list) list"

text \<open>\<^verbatim>\<open>del headers[key]\<close>: drops every entry of that name, none if there is none.\<close>

fun headers_delitem :: "headers \<Rightarrow> string \<Rightarrow> headers" where
  "headers_delitem [] key = []"
| "headers_delitem ((name, vals) # rest) key =
     (if same_name name key then headers_delitem rest key
      else (name, vals) # headers_delitem rest key)"

text \<open>The values stored under a name, \<open>None\<close> when the name is absent.\<close>

fun headers_lookup :: "headers \<Rightarrow> string \<Rightarrow> string list option" where
  "headers_lookup [] key = None"
| "headers_lookup ((name, vals) # rest) key =
     (if same_name name key then Some vals else headers_lookup rest key)"

text \<open>
  \<^verbatim>\<open>headers[key] = vals\<close>: replaces the values of an existing name in place and
  appends a new name at the end ("order-preserving").
\<close>

fun headers_setitem :: "headers \<Rightarrow> string \<Rightarrow> string list \<Rightarrow> headers" where
  "headers_setitem [] key new = [(key, new)]"
| "headers_setitem ((name, vals) # rest) key new =
     (if same_name name key then (name, new) # rest
      else (name, vals) # headers_setitem rest key new)"




subsection \<open>URLs, requests, responses, failures\<close>

text \<open>
  Modelled from the spec: the class \<^verbatim>\<open>URL\<close> of \<^verbatim>\<open>models.py\<close>, "origin (scheme,
  host, port), path, query, fragment, and optional user-info (username, password)",
  with copy-with-field-override as a record update and equality of URLs as equality
  of their components. Parsing, joining, the relative-URL predicate and the
  authority string are fields of \<open>env\<close>.
\<close>

record url =
  scheme :: string
  host :: string
  port :: nat
  path :: string
  query :: string
  fragment :: string
  username :: string
  password :: string

definition origin :: "url \<Rightarrow> string \<times> string \<times> nat" where
  "origin u = (scheme u, host u, port u)"

type_synonym cookies = "(string \<times> string) list"

text \<open>
  A prepared request. \<open>content\<close> holds the body bytes when the body is not a lazy
  stream; \<open>is_streaming\<close> says that it is one.
\<close>

record request =
  req_method :: string
  req_url :: url
  req_headers :: headers
  content :: "nat list"
  is_streaming :: bool
  req_cookies :: "cookies option"

text \<open>
  A response with the redirect history attached to it by the engine; \<open>has_next\<close>
  records that the engine attached the deferred continuation \<^verbatim>\<open>response.next\<close>.
\<close>

datatype response = Response
  (status_code: int)
  (resp_headers: headers)
  (resp_url: url)
  (history: "response list")
  (has_next: bool)

text \<open>
  Every \<^verbatim>\<open>raise\<close> of the client is a value. The three redirect failures carry the
  response given to their constructor; \<open>Collaborator\<close> is an exception raised by
  a collaborator (dispatcher, body read), its flag telling whether its class derives
  from \<^verbatim>\<open>HTTPError\<close>; \<open>IndexError\<close> is \<^verbatim>\<open>history[-1]\<close> on an empty list and
  \<open>KeyError\<close> a failed \<^verbatim>\<open>response.headers["Location"]\<close>.
\<close>

datatype exc_class =
    TooManyRedirects
  | RedirectLoop
  | RedirectBodyUnavailable
  | InvalidURL
  | Collaborator bool string
  | IndexError
  | KeyError string

datatype exc = Exc
  (exc_class: exc_class)
  (exc_response: "response option")
  (exc_request: "request option")

text \<open>
  Modelled from the spec: the class hierarchy of \<^verbatim>\<open>exceptions.py\<close>, which is not
  among the sources. Section 7 of the specification lists the invalid-URL and the
  three redirect failures as kinds of the supertype \<^verbatim>\<open>HTTPError\<close>.
\<close>

fun is_HTTPError :: "exc_class \<Rightarrow> bool" where
  "is_HTTPError TooManyRedirects = True"
| "is_HTTPError RedirectLoop = True"
| "is_HTTPError RedirectBodyUnavailable = True"
| "is_HTTPError InvalidURL = True"
| "is_HTTPError (Collaborator http _) = http"
| "is_HTTPError IndexError = False"
| "is_HTTPError (KeyError _) = False"

text \<open>
  Modelled from the spec: the constants of \<^verbatim>\<open>status_codes.py\<close> that
  \<^verbatim>\<open>redirect_method\<close> reads, with the values the specification names.
\<close>

definition SEE_OTHER :: int where "SEE_OTHER = 303"
definition FOUND :: int where "FOUND = 302"
definition MOVED_PERMANENTLY :: int where "MOVED_PERMANENTLY = 301"

text \<open>
  Modelled from the spec: \<^verbatim>\<open>response.is_redirect\<close> is "true iff status is one of
  301, 302, 303, 307, 308 and a Location header is present".
\<close>

definition is_redirect :: "response \<Rightarrow> bool" where
  "is_redirect r \<longleftrightarrow>
     status_code r \<in> {301, 302, 303, 307, 308} \<and> headers_lookup (resp_headers r) ''Location'' \<noteq> None"

section \<open>Building the redirect request\<close>

text \<open>
  \<^verbatim>\<open>redirect_method\<close>: three \<^verbatim>\<open>if\<close> statements in sequence, each reading the
  method the previous one left.
\<close>

definition redirect_method :: "request \<Rightarrow> response \<Rightarrow> string" where
  "redirect_method request response =
     (let method0 = req_method request;
          method1 = (if status_code response = SEE_OTHER \<and> method0 \<noteq> ''HEAD''
                     then ''GET'' else method0);
          method2 = (if status_code response = FOUND \<and> method1 \<noteq> ''HEAD''
                     then ''GET'' else method1);
          method3 = (if status_code response = MOVED_PERMANENTLY \<and> method2 = ''POST''
                     then ''GET'' else method2)
      in method3)"

text \<open>
  \<^verbatim>\<open>redirect_headers\<close>: \<^verbatim>\<open>Headers(request.headers)\<close> copies, and the two
  \<^verbatim>\<open>del\<close> statements run when the origins differ.
\<close>

definition redirect_headers :: "request \<Rightarrow> url \<Rightarrow> headers" where
  "redirect_headers request u =
     (let headers0 = req_headers request in
      if origin u \<noteq> origin (req_url request)
      then headers_delitem (headers_delitem headers0 ''Authorization'') ''host''
      else headers0)"

text \<open>\<^verbatim>\<open>redirect_content\<close>: the body of the redirect request, or the failure.\<close>

definition redirect_content :: "request \<Rightarrow> string \<Rightarrow> response \<Rightarrow> exc + nat list" where
  "redirect_content request method response =
     (if method \<noteq> req_method request \<and> method = ''GET'' then Inr []
      else if is_streaming request
      then Inl (Exc RedirectBodyUnavailable (Some response) None)
      else Inr (content request))"

section \<open>Collaborators and the client context\<close>

text \<open>
  The operations of the collaborators. \<open>dispatch_send\<close> is
  \<^verbatim>\<open>self.dispatch.send\<close>: it runs on the dispatcher's own state \<open>'d\<close> and either
  raises (the flag tells whether the exception derives from \<^verbatim>\<open>HTTPError\<close>) or
  yields a response. \<open>basic_auth u p\<close> is the call of \<^verbatim>\<open>HTTPBasicAuth(u, p)\<close>
  on a request, \<open>AsyncRequest\<close> the constructor of the request class,
  \<open>header_value\<close> the string \<^verbatim>\<open>headers[name]\<close> made of the values of a name,
  \<open>response_read\<close> the \<^verbatim>\<open>read\<close> and \<^verbatim>\<open>close\<close> of a response body.
\<close>

record 'd env =
  dispatch_send :: "'d \<Rightarrow> request \<Rightarrow> ((bool \<times> string) + response) \<times> 'd"
  url_join :: "url \<Rightarrow> url \<Rightarrow> url"
  url_parse :: "string \<Rightarrow> url"
  is_relative_url :: "url \<Rightarrow> bool"
  authority :: "url \<Rightarrow> string"
  in_hsts_preload :: "string \<Rightarrow> bool"
  get_netrc_login :: "string \<Rightarrow> (string \<times> string \<times> string) option"
  basic_auth :: "string \<Rightarrow> string \<Rightarrow> request \<Rightarrow> request"
  extract_cookies :: "cookies \<Rightarrow> response \<Rightarrow> cookies"
  update_cookies :: "cookies \<Rightarrow> cookies option \<Rightarrow> cookies"
  header_value :: "string list \<Rightarrow> string"
  AsyncRequest :: "string \<Rightarrow> url \<Rightarrow> headers \<Rightarrow> nat list \<Rightarrow> cookies option \<Rightarrow> request"
  response_read :: "response \<Rightarrow> (bool \<times> string) + response"

text \<open>
  \<^verbatim>\<open>AuthTypes\<close>: a 2-tuple of credentials, an \<^verbatim>\<open>HTTPBasicAuth\<close> object, or any
  other callable from request to request.
\<close>

datatype auth =
    AuthTuple string string
  | HTTPBasicAuth string string
  | AuthCallable "request \<Rightarrow> request"

text \<open>
  The attributes \<^verbatim>\<open>BaseClient.__init__\<close> sets. The cookie jar and the dispatcher
  are the two that a call changes; functions that change them return the client.
\<close>

record 'd client =
  auth :: "auth option"
  headers :: headers
  cookies :: cookies
  max_redirects :: int
  base_url :: url
  dispatch :: 'd
  trust_env :: bool

section \<open>Merge helpers\<close>


text \<open>Python truthiness of an optional container: \<^verbatim>\<open>None\<close> and the empty one are false.\<close>

definition truthy :: "'a list option \<Rightarrow> bool" where
  "truthy x \<longleftrightarrow> x \<noteq> None \<and> x \<noteq> Some []"

definition merge_cookies :: "'d env \<Rightarrow> 'd client \<Rightarrow> cookies option \<Rightarrow> cookies option" where
  "merge_cookies env c cks =
     (if truthy cks \<or> cookies c \<noteq> []
      then Some (update_cookies env (cookies c) cks)
      else cks)"



section \<open>The redirect engine\<close>

definition redirect_url :: "'d env \<Rightarrow> request \<Rightarrow> response \<Rightarrow> exc + url" where
  "redirect_url env request response =
     (case headers_lookup (resp_headers response) ''Location'' of
        None \<Rightarrow> Inl (Exc (KeyError ''Location'') None None)
      | Some vals \<Rightarrow>
          (let location = header_value env vals;
               url0 = url_parse env location;
               url1 = (if is_relative_url env url0 then url_join env (req_url request) url0
                       else url0);
               url2 = (if fragment (req_url request) \<noteq> [] \<and> fragment url1 = []
                       then url1\<lparr>fragment := fragment (req_url request)\<rparr> else url1)
           in Inr url2))"

definition build_redirect_request ::
  "'d env \<Rightarrow> 'd client \<Rightarrow> request \<Rightarrow> response \<Rightarrow> exc + request" where
  "build_redirect_request env c request response =
     (let method = redirect_method request response in
      case redirect_url env request response of
        Inl e \<Rightarrow> Inl e
      | Inr u \<Rightarrow>
          (let hs = redirect_headers request u in
           case redirect_content request method response of
             Inl e \<Rightarrow> Inl e
           | Inr body \<Rightarrow>
               (let cks = merge_cookies env c (req_cookies request)
                in Inr (AsyncRequest env method u hs body cks))))"

text \<open>
  \<^verbatim>\<open>history[-1]\<close>: the last response, an \<^verbatim>\<open>IndexError\<close> on the empty list. It is
  evaluated as the argument of the exception's constructor, so its failure replaces
  the exception that was being built.
\<close>

definition raise_with_last :: "exc_class \<Rightarrow> response list \<Rightarrow> exc" where
  "raise_with_last cls hist =
     (if hist = [] then Exc IndexError None None else Exc cls (Some (last hist)) None)"

text \<open>The two checks at the head of the loop body: the failure raised, if any.\<close>

definition precheck :: "'d client \<Rightarrow> request \<Rightarrow> response list \<Rightarrow> exc option" where
  "precheck c request hist =
     (if int (length hist) > max_redirects c then Some (raise_with_last TooManyRedirects hist)
      else if req_url request \<in> set (map resp_url hist)
      then Some (raise_with_last RedirectLoop hist)
      else None)"

definition set_history :: "response \<Rightarrow> response list \<Rightarrow> response" where
  "set_history r hist = Response (status_code r) (resp_headers r) (resp_url r) hist (has_next r)"

definition set_next :: "response \<Rightarrow> response" where
  "set_next r = Response (status_code r) (resp_headers r) (resp_url r) (history r) True"

text \<open>
  \<^verbatim>\<open>send_handling_redirects\<close>. The \<^verbatim>\<open>while True\<close> loop is the recursion: every
  iteration is a call with the current request and history, and a call with
  \<^verbatim>\<open>history=None\<close> is a call with the empty list. The result is what the call
  raises or returns, the client (cookie jar and dispatcher as the call left them)
  and the history list, which the caller of \<^verbatim>\<open>response.next\<close> shares with the
  call. The response appended to the history is the object returned, so the
  \<^verbatim>\<open>next\<close> attached after the loop is on the history's last element too. Every
  iteration that goes round has appended one response to a history that was no
  longer than \<^verbatim>\<open>max_redirects\<close>, which is why the loop ends. The closing of
  response bodies is left out: it changes none of the values below.
\<close>

function send_handling_redirects ::
  "'d env \<Rightarrow> 'd client \<Rightarrow> request \<Rightarrow> bool \<Rightarrow> response list
     \<Rightarrow> (exc + response) \<times> 'd client \<times> response list" where
  "send_handling_redirects env c request allow_redirects hist =
     (case precheck c request hist of
        Some e \<Rightarrow> (Inl e, c, hist)
      | None \<Rightarrow>
          (case dispatch_send env (dispatch c) request of
             (Inl (http, msg), d) \<Rightarrow>
               (Inl (Exc (Collaborator http msg) None None), c\<lparr>dispatch := d\<rparr>, hist)
           | (Inr response0, d) \<Rightarrow>
               (let response = set_history response0 hist;
                    c1 = c\<lparr>dispatch := d, cookies := extract_cookies env (cookies c) response\<rparr>
                in if allow_redirects \<and> is_redirect response
                   then (case build_redirect_request env c1 request response of
                           Inl e \<Rightarrow> (Inl e, c1, hist @ [response])
                         | Inr request1 \<Rightarrow>
                             send_handling_redirects env c1 request1 allow_redirects
                               (hist @ [response]))
                   else (let final = (if is_redirect response then set_next response
                                      else response)
                         in (Inr final, c1, hist @ [final])))))"
  by pat_completeness auto
termination
proof (relation "measure (\<lambda>(env, c, request, allow_redirects, hist).
                   nat (max_redirects c + 1 - int (length hist)))")
  show "wf (measure (\<lambda>(env :: 'd env, c :: 'd client, request :: request,
                       allow_redirects :: bool, hist :: response list).
                   nat (max_redirects c + 1 - int (length hist))))"
    by simp
next
  fix env :: "'d env" and c c1 :: "'d client" and request request1 :: request
    and allow_redirects :: bool and hist :: "response list" and response :: response and d :: 'd
  assume "precheck c request hist = None"
  then have "int (length hist) \<le> max_redirects c"
    by (simp add: precheck_def split: if_splits)
  then show "((env, c1, request1, allow_redirects, hist @ [response]),
              (env, c, request, allow_redirects, hist)) \<in>
             measure (\<lambda>(env, c, request, allow_redirects, hist).
                   nat (max_redirects c + 1 - int (length hist)))"
    if "c1 = c\<lparr>dispatch := d, cookies := extract_cookies env (cookies c) response\<rparr>"
    using that by simp
qed

declare send_handling_redirects.simps [simp del]

text \<open>
  What \<^verbatim>\<open>response.next()\<close> does: it builds the redirect request from the request
  and response of the last hop and enters the engine again with the history it
  shares with the first call.
\<close>

definition send_next ::
  "'d env \<Rightarrow> 'd client \<Rightarrow> request \<Rightarrow> response \<Rightarrow> bool \<Rightarrow> response list
     \<Rightarrow> (exc + response) \<times> 'd client \<times> response list" where
  "send_next env c request response allow_redirects hist =
     (case build_redirect_request env c request response of
        Inl e \<Rightarrow> (Inl e, c, hist)
      | Inr request1 \<Rightarrow> send_handling_redirects env c request1 allow_redirects hist)"

section \<open>The send pipeline\<close>

text \<open>
  The auth that \<^verbatim>\<open>send\<close> ends up with: the argument, replaced by
  \<^verbatim>\<open>self.auth\<close> when it is \<^verbatim>\<open>None\<close>, and when that is \<^verbatim>\<open>None\<close> too, by
  the user-info of the URL or by the netrc entry. \<^verbatim>\<open>url.username or url.password\<close>
  is the truthiness of two strings; \<^verbatim>\<open>get_netrc_login\<close> returns a triple or
  \<^verbatim>\<open>None\<close>.
\<close>

definition resolve_auth ::
  "'d env \<Rightarrow> 'd client \<Rightarrow> request \<Rightarrow> auth option \<Rightarrow> bool option \<Rightarrow> auth option" where
  "resolve_auth env c request auth_arg trust_env_arg =
     (let auth0 = (case auth_arg of None \<Rightarrow> auth c | Some a \<Rightarrow> Some a);
          u = req_url request
      in case auth0 of
           Some a \<Rightarrow> Some a
         | None \<Rightarrow>
             if username u \<noteq> [] \<or> password u \<noteq> []
             then Some (HTTPBasicAuth (username u) (password u))
             else if (case trust_env_arg of None \<Rightarrow> trust_env c | Some t \<Rightarrow> t)
             then (case get_netrc_login env (authority env u) of
                     Some (netrc_username, _, netrc_password) \<Rightarrow>
                       Some (HTTPBasicAuth netrc_username netrc_password)
                   | None \<Rightarrow> None)
             else None)"

text \<open>
  \<^verbatim>\<open>if auth is not None\<close>: a tuple is made an \<^verbatim>\<open>HTTPBasicAuth\<close>, and the auth
  is called on the request.
\<close>

fun call_auth :: "'d env \<Rightarrow> auth \<Rightarrow> request \<Rightarrow> request" where
  "call_auth env (AuthTuple u p) request = basic_auth env u p request"
| "call_auth env (HTTPBasicAuth u p) request = basic_auth env u p request"
| "call_auth env (AuthCallable f) request = f request"

definition apply_auth :: "'d env \<Rightarrow> auth option \<Rightarrow> request \<Rightarrow> request" where
  "apply_auth env a request = (case a of None \<Rightarrow> request | Some f \<Rightarrow> call_auth env f request)"

text \<open>\<^verbatim>\<open>exc.request = request\<close>\<close>

definition set_request :: "exc \<Rightarrow> request \<Rightarrow> exc" where
  "set_request e request = Exc (exc_class e) (exc_response e) (Some request)"

text \<open>
  The \<^verbatim>\<open>try\<close> block of \<^verbatim>\<open>send\<close> and what follows it, on the request that the
  auth step has left in the variable \<^verbatim>\<open>request\<close>.
\<close>

definition send_prepared ::
  "'d env \<Rightarrow> 'd client \<Rightarrow> request \<Rightarrow> bool \<Rightarrow> bool \<Rightarrow> (exc + response) \<times> 'd client" where
  "send_prepared env c request stream allow_redirects =
     (case send_handling_redirects env c request allow_redirects [] of
        (Inl e, c1, _) \<Rightarrow>
          (Inl (if is_HTTPError (exc_class e) then set_request e request else e), c1)
      | (Inr response, c1, _) \<Rightarrow>
          if \<not> stream
          then (case response_read env response of
                  Inl (http, msg) \<Rightarrow> (Inl (Exc (Collaborator http msg) None None), c1)
                | Inr response1 \<Rightarrow> (Inr response1, c1))
          else (Inr response, c1))"

text \<open>
  \<^verbatim>\<open>send\<close>. The scheme check stands between the two halves of the resolution of
  the auth; neither half has an effect, so the resolution is one step here.
\<close>

definition send ::
  "'d env \<Rightarrow> 'd client \<Rightarrow> request \<Rightarrow> bool \<Rightarrow> auth option \<Rightarrow> bool \<Rightarrow> bool option
     \<Rightarrow> (exc + response) \<times> 'd client" where
  "send env c request stream auth_arg allow_redirects trust_env_arg =
     (if scheme (req_url request) \<noteq> ''http'' \<and> scheme (req_url request) \<noteq> ''https''
      then (Inl (Exc InvalidURL None None), c)
      else send_prepared env c
             (apply_auth env (resolve_auth env c request auth_arg trust_env_arg) request)
             stream allow_redirects)"

section \<open>The order of the auth resolution, as the specification words it\<close>

fun first_some :: "'a option list \<Rightarrow> 'a option" where
  "first_some [] = None"
| "first_some (None # rest) = first_some rest"
| "first_some (Some x # rest) = Some x"

definition userinfo_auth :: "url \<Rightarrow> auth option" where
  "userinfo_auth u =
     (if username u \<noteq> [] \<or> password u \<noteq> [] then Some (HTTPBasicAuth (username u) (password u))
      else None)"

definition netrc_auth :: "'d env \<Rightarrow> url \<Rightarrow> auth option" where
  "netrc_auth env u = map_option (\<lambda>(user, _, pass). HTTPBasicAuth user pass)
     (get_netrc_login env (authority env u))"

definition effective_trust_env :: "'d client \<Rightarrow> bool option \<Rightarrow> bool" where
  "effective_trust_env c trust_env_arg = (case trust_env_arg of None \<Rightarrow> trust_env c | Some t \<Rightarrow> t)"

text \<open>
  The order with the client's default auth in second place, and the order as the
  sentence of the specification has it, without the client's default.
\<close>

definition auth_order ::
  "'d env \<Rightarrow> 'd client \<Rightarrow> request \<Rightarrow> auth option \<Rightarrow> bool option \<Rightarrow> auth option" where
  "auth_order env c request auth_arg trust_env_arg =
     first_some [auth_arg, auth c, userinfo_auth (req_url request),
       if effective_trust_env c trust_env_arg then netrc_auth env (req_url request) else None]"

definition auth_order_without_default ::
  "'d env \<Rightarrow> 'd client \<Rightarrow> request \<Rightarrow> auth option \<Rightarrow> bool option \<Rightarrow> auth option" where
  "auth_order_without_default env c request auth_arg trust_env_arg =
     first_some [auth_arg, userinfo_auth (req_url request),
       if effective_trust_env c trust_env_arg then netrc_auth env (req_url request) else None]"

section \<open>Example values\<close>

text \<open>
  Concrete collaborators and inputs on which the theorems below are instantiated.
  The example dispatcher counts its calls in its state and answers every request
  with a 302 to \<^verbatim>\<open>https://a/1\<close>; the failing one raises an \<^verbatim>\<open>HTTPError\<close>.
\<close>

definition url_a1 :: url where
  "url_a1 = \<lparr>scheme = ''https'', host = ''a'', port = 443, path = ''/1'', query = [],
     fragment = [], username = [], password = []\<rparr>"

definition url_a2 :: url where
  "url_a2 = url_a1\<lparr>path := ''/2''\<rparr>"

definition url_c2 :: url where
  "url_c2 = url_a1\<lparr>host := ''c'', path := ''/2''\<rparr>"



definition url_alice :: url where
  "url_alice = url_a1\<lparr>username := ''alice'', password := ''wonder''\<rparr>"

definition example_request :: request where
  "example_request = \<lparr>req_method = ''GET'', req_url = url_a1,
     req_headers = [(''authorization'', [''Bearer T'']), (''Host'', [''a'']),
                    (''accept'', [''*/*''])],
     content = [], is_streaming = False, req_cookies = None\<rparr>"

definition redirect_to_a1 :: response where
  "redirect_to_a1 = Response 302 [(''location'', [''https://a/1''])] url_a1 [] False"


definition example_env :: "nat env" where
  "example_env = \<lparr>
     dispatch_send = (\<lambda>n r. (Inr (Response 302 [(''location'', [''https://a/1''])]
                                    (req_url r) [] False), Suc n)),
     url_join = (\<lambda>base u. u),
     url_parse = (\<lambda>s. if s = ''https://a/1'' then url_a1 else url_c2),
     is_relative_url = (\<lambda>u. scheme u = []),
     authority = host,
     in_hsts_preload = (\<lambda>h. h = ''example.invalid''),
     get_netrc_login = (\<lambda>a. if a = ''c'' then Some (''bob'', [], ''builder'') else None),
     basic_auth = (\<lambda>u p r. r\<lparr>req_headers :=
                     headers_setitem (req_headers r) ''Authorization'' [u @ '':'' @ p]\<rparr>),
     extract_cookies = (\<lambda>jar r. jar),
     update_cookies = (\<lambda>jar cks. jar @ (case cks of None \<Rightarrow> [] | Some l \<Rightarrow> l)),
     header_value = concat,
     AsyncRequest = (\<lambda>m u hs body cks. \<lparr>req_method = m, req_url = u, req_headers = hs,
                       content = body, is_streaming = False, req_cookies = cks\<rparr>),
     response_read = Inr\<rparr>"


definition example_client :: "nat client" where
  "example_client = \<lparr>auth = None, headers = [(''user-agent'', [''python-httpx''])],
     cookies = [], max_redirects = 0,
     base_url = \<lparr>scheme = [], host = [], port = 0, path = [], query = [], fragment = [],
                 username = [], password = []\<rparr>,
     dispatch = 0, trust_env = True\<rparr>"

section \<open>Redirect-request construction\<close>

text \<open>
  C3: \<^verbatim>\<open>redirect_method\<close> returns GET for a 303 when the prior method is not HEAD,
  GET for a 302 when the prior method is not HEAD, GET for a 301 when the prior
  method is POST, and the prior method in every other case.
\<close>

theorem redirect_method_cases:
  "(status_code response = 303 \<and> req_method request \<noteq> ''HEAD''
      \<longrightarrow> redirect_method request response = ''GET'')
   \<and> (status_code response = 302 \<and> req_method request \<noteq> ''HEAD''
      \<longrightarrow> redirect_method request response = ''GET'')
   \<and> (status_code response = 301 \<and> req_method request = ''POST''
      \<longrightarrow> redirect_method request response = ''GET'')
   \<and> (\<not> (status_code response = 303 \<and> req_method request \<noteq> ''HEAD'')
      \<and> \<not> (status_code response = 302 \<and> req_method request \<noteq> ''HEAD'')
      \<and> \<not> (status_code response = 301 \<and> req_method request = ''POST'')
      \<longrightarrow> redirect_method request response = req_method request)"
  by (auto simp: redirect_method_def SEE_OTHER_def FOUND_def MOVED_PERMANENTLY_def Let_def)

theorem redirect_method_cases_witness:
  "redirect_method (example_request\<lparr>req_method := ''PUT''\<rparr>) (Response 303 [] url_a1 [] False) = ''GET''
   \<and> redirect_method example_request redirect_to_a1 = ''GET''
   \<and> redirect_method (example_request\<lparr>req_method := ''POST''\<rparr>) (Response 301 [] url_a1 [] False) = ''GET''
   \<and> redirect_method (example_request\<lparr>req_method := ''HEAD''\<rparr>) (Response 303 [] url_a1 [] False) = ''HEAD''
   \<and> redirect_method (example_request\<lparr>req_method := ''PUT''\<rparr>) (Response 301 [] url_a1 [] False) = ''PUT''
   \<and> redirect_method (example_request\<lparr>req_method := ''POST''\<rparr>) (Response 307 [] url_a1 [] False) = ''POST''"
  using redirect_method_cases [of "Response 303 [] url_a1 [] False" "example_request\<lparr>req_method := ''PUT''\<rparr>"]
    redirect_method_cases [of redirect_to_a1 example_request]
    redirect_method_cases [of "Response 301 [] url_a1 [] False" "example_request\<lparr>req_method := ''POST''\<rparr>"]
    redirect_method_cases [of "Response 303 [] url_a1 [] False" "example_request\<lparr>req_method := ''HEAD''\<rparr>"]
    redirect_method_cases [of "Response 301 [] url_a1 [] False" "example_request\<lparr>req_method := ''PUT''\<rparr>"]
    redirect_method_cases [of "Response 307 [] url_a1 [] False" "example_request\<lparr>req_method := ''POST''\<rparr>"]
  by (simp add: example_request_def redirect_to_a1_def)

lemma headers_delitem_filter:
  "headers_delitem h key = filter (\<lambda>p. \<not> same_name (fst p) key) h"
  by (induction h) auto

text \<open>
  C2: the headers of the redirect request are the prior request's headers; when the
  origin of the new URL differs from the origin of the prior URL, exactly the
  entries named Authorization and host, whatever their case, are gone and the others
  are as they were, in their order (so nothing changes when neither name is there);
  when the origins are equal, nothing is removed.
\<close>

theorem redirect_headers_strip:
  "(origin u \<noteq> origin (req_url request) \<longrightarrow>
      redirect_headers request u =
        filter (\<lambda>p. \<not> same_name (fst p) ''Authorization'' \<and> \<not> same_name (fst p) ''host'')
          (req_headers request))
   \<and> (origin u \<noteq> origin (req_url request)
        \<and> (\<forall>p \<in> set (req_headers request).
              \<not> same_name (fst p) ''Authorization'' \<and> \<not> same_name (fst p) ''host'') \<longrightarrow>
      redirect_headers request u = req_headers request)
   \<and> (origin u = origin (req_url request) \<longrightarrow> redirect_headers request u = req_headers request)"
  by (auto simp: redirect_headers_def headers_delitem_filter Let_def conj_commute filter_id_conv)

theorem redirect_headers_strip_witness:
  "redirect_headers example_request url_c2 = [(''accept'', [''*/*''])]
   \<and> redirect_headers (example_request\<lparr>req_headers := [(''accept'', [''*/*''])]\<rparr>) url_c2
       = [(''accept'', [''*/*''])]
   \<and> redirect_headers example_request url_a2 = req_headers example_request"
  using redirect_headers_strip [of url_c2 example_request]
    redirect_headers_strip [of url_c2 "example_request\<lparr>req_headers := [(''accept'', [''*/*''])]\<rparr>"]
    redirect_headers_strip [of url_a2 example_request]
  by (simp add: example_request_def url_a1_def url_a2_def url_c2_def origin_def same_name_def
      lower_def)

text \<open>
  C4: \<^verbatim>\<open>redirect_content\<close> returns an empty body when the new method differs from
  the prior one and is GET; otherwise it raises RedirectBodyUnavailable, carrying the
  redirect response, exactly when the prior body is a lazy stream, and otherwise
  returns the prior request's bytes.
\<close>

theorem redirect_content_cases:
  "(method \<noteq> req_method request \<and> method = ''GET''
      \<longrightarrow> redirect_content request method response = Inr [])
   \<and> (\<not> (method \<noteq> req_method request \<and> method = ''GET'') \<and> is_streaming request
      \<longrightarrow> redirect_content request method response
            = Inl (Exc RedirectBodyUnavailable (Some response) None))
   \<and> (\<not> (method \<noteq> req_method request \<and> method = ''GET'') \<and> \<not> is_streaming request
      \<longrightarrow> redirect_content request method response = Inr (content request))"
  by (simp add: redirect_content_def)

theorem redirect_content_cases_witness:
  "redirect_content (example_request\<lparr>req_method := ''POST'', content := [1, 2]\<rparr>) ''GET''
       redirect_to_a1 = Inr []
   \<and> redirect_content (example_request\<lparr>req_method := ''POST'', is_streaming := True\<rparr>) ''POST''
       redirect_to_a1 = Inl (Exc RedirectBodyUnavailable (Some redirect_to_a1) None)
   \<and> redirect_content (example_request\<lparr>req_method := ''POST'', content := [1, 2]\<rparr>) ''POST''
       redirect_to_a1 = Inr [1, 2]"
  using redirect_content_cases [of "''GET''" "example_request\<lparr>req_method := ''POST'', content := [1, 2]\<rparr>" redirect_to_a1]
    redirect_content_cases [of "''POST''" "example_request\<lparr>req_method := ''POST'', is_streaming := True\<rparr>" redirect_to_a1]
    redirect_content_cases [of "''POST''" "example_request\<lparr>req_method := ''POST'', content := [1, 2]\<rparr>" redirect_to_a1]
  by (simp add: example_request_def)

section \<open>The redirect engine: one iteration at a time\<close>

text \<open>
  The five ways through one iteration of the loop of \<^verbatim>\<open>send_handling_redirects\<close>:
  a precheck raises, the dispatcher raises, the response is returned, the redirect
  request cannot be built, or the loop goes round with the new request.
\<close>

lemma precheck_fires:
  "precheck c request hist = Some e \<Longrightarrow>
     (hist = [] \<and> e = Exc IndexError None None)
     \<or> (hist \<noteq> [] \<and> exc_response e = Some (last hist) \<and> exc_request e = None
         \<and> (exc_class e = TooManyRedirects \<or> exc_class e = RedirectLoop))"
  by (auto simp: precheck_def raise_with_last_def split: if_splits)

lemma precheck_first_hop: "0 \<le> max_redirects c \<Longrightarrow> precheck c request [] = None"
  by (simp add: precheck_def)

lemma precheck_passed: "precheck c request hist = None \<Longrightarrow> int (length hist) \<le> max_redirects c"
  by (simp add: precheck_def split: if_splits)

lemma build_redirect_request_failure:
  "build_redirect_request env c request response = Inl e \<Longrightarrow>
     exc_class e = KeyError ''Location'' \<or> exc_class e = RedirectBodyUnavailable"
  by (auto simp: build_redirect_request_def redirect_url_def redirect_content_def Let_def
      split: option.splits sum.splits if_splits)

lemma engine_precheck:
  "precheck c request hist = Some e \<Longrightarrow>
     send_handling_redirects env c request allow_redirects hist = (Inl e, c, hist)"
  by (subst send_handling_redirects.simps) simp

lemma engine_dispatch_raises:
  "precheck c request hist = None \<Longrightarrow>
   dispatch_send env (dispatch c) request = (Inl (http, msg), d) \<Longrightarrow>
     send_handling_redirects env c request allow_redirects hist =
       (Inl (Exc (Collaborator http msg) None None), c\<lparr>dispatch := d\<rparr>, hist)"
  by (subst send_handling_redirects.simps) simp

lemma engine_returns:
  "precheck c request hist = None \<Longrightarrow>
   dispatch_send env (dispatch c) request = (Inr response0, d) \<Longrightarrow>
   response = set_history response0 hist \<Longrightarrow>
   \<not> (allow_redirects \<and> is_redirect response) \<Longrightarrow>
   final = (if is_redirect response then set_next response else response) \<Longrightarrow>
     send_handling_redirects env c request allow_redirects hist =
       (Inr final, c\<lparr>dispatch := d, cookies := extract_cookies env (cookies c) response\<rparr>,
        hist @ [final])"
  by (subst send_handling_redirects.simps) (auto simp: Let_def)

lemma engine_build_raises:
  "precheck c request hist = None \<Longrightarrow>
   dispatch_send env (dispatch c) request = (Inr response0, d) \<Longrightarrow>
   response = set_history response0 hist \<Longrightarrow>
   c1 = c\<lparr>dispatch := d, cookies := extract_cookies env (cookies c) response\<rparr> \<Longrightarrow>
   allow_redirects \<and> is_redirect response \<Longrightarrow>
   build_redirect_request env c1 request response = Inl e \<Longrightarrow>
     send_handling_redirects env c request allow_redirects hist = (Inl e, c1, hist @ [response])"
  by (subst send_handling_redirects.simps) (simp add: Let_def)

lemma engine_continues:
  "precheck c request hist = None \<Longrightarrow>
   dispatch_send env (dispatch c) request = (Inr response0, d) \<Longrightarrow>
   response = set_history response0 hist \<Longrightarrow>
   c1 = c\<lparr>dispatch := d, cookies := extract_cookies env (cookies c) response\<rparr> \<Longrightarrow>
   allow_redirects \<and> is_redirect response \<Longrightarrow>
   build_redirect_request env c1 request response = Inr request1 \<Longrightarrow>
     send_handling_redirects env c request allow_redirects hist =
       send_handling_redirects env c1 request1 allow_redirects (hist @ [response])"
  by (subst send_handling_redirects.simps) (simp add: Let_def)

section \<open>The redirect engine: whole calls\<close>

text \<open>
  The inductions below follow the recursion of the engine (its computation
  induction), one case for each way through an iteration.
\<close>

lemma no_index_error:
  "0 \<le> max_redirects c \<or> hist \<noteq> [] \<Longrightarrow>
   fst (send_handling_redirects env c request allow_redirects hist) = Inl e \<Longrightarrow>
   exc_class e \<noteq> IndexError"
proof (induction env c request allow_redirects hist rule: send_handling_redirects.induct)
  case (1 env c request allow_redirects hist)
  show ?case
  proof (cases "precheck c request hist")
    case (Some e')
    with "1.prems"(2) have "e' = e"
      by (simp add: engine_precheck)
    with Some "1.prems"(1) show ?thesis
      using precheck_fires [of c request hist e] precheck_first_hop [of c request]
      by auto
  next
    case None
    obtain res d where disp: "dispatch_send env (dispatch c) request = (res, d)"
      by (cases "dispatch_send env (dispatch c) request")
    show ?thesis
    proof (cases res)
      case (Inl failure)
      obtain http msg where "failure = (http, msg)" by (cases failure)
      with None disp Inl "1.prems"(2) show ?thesis
        by (auto simp: engine_dispatch_raises)
    next
      case (Inr response0)
      define response where "response = set_history response0 hist"
      define c1 where
        "c1 = c\<lparr>dispatch := d, cookies := extract_cookies env (cookies c) response\<rparr>"
      note disp' = disp [unfolded Inr]
      show ?thesis
      proof (cases "allow_redirects \<and> is_redirect response")
        case False
        from engine_returns [OF None disp' response_def False refl] "1.prems"(2)
        show ?thesis by simp
      next
        case True
        show ?thesis
        proof (cases "build_redirect_request env c1 request response")
          case (Inl e')
          from engine_build_raises [OF None disp' response_def c1_def True Inl] "1.prems"(2)
          have "e' = e" by simp
          with build_redirect_request_failure [OF Inl] show ?thesis by auto
        next
          case (Inr request1)
          note step = engine_continues [OF None disp' response_def c1_def True Inr]
          from "1.IH" [OF None disp [symmetric] \<open>res = Inr response0\<close>
              response_def c1_def True Inr] "1.prems"(2) step
          show ?thesis by simp
        qed
      qed
    qed
  qed
qed

lemma returned_history_bounded:
  "fst (send_handling_redirects env c request allow_redirects hist) = Inr r \<Longrightarrow>
   int (length (history r)) \<le> max_redirects c"
proof (induction env c request allow_redirects hist rule: send_handling_redirects.induct)
  case (1 env c request allow_redirects hist)
  show ?case
  proof (cases "precheck c request hist")
    case (Some e')
    with "1.prems" show ?thesis
      by (simp add: engine_precheck)
  next
    case None
    obtain res d where disp: "dispatch_send env (dispatch c) request = (res, d)"
      by (cases "dispatch_send env (dispatch c) request")
    show ?thesis
    proof (cases res)
      case (Inl failure)
      obtain http msg where "failure = (http, msg)" by (cases failure)
      with None disp Inl "1.prems" show ?thesis
        by (auto simp: engine_dispatch_raises)
    next
      case (Inr response0)
      define response where "response = set_history response0 hist"
      define c1 where
        "c1 = c\<lparr>dispatch := d, cookies := extract_cookies env (cookies c) response\<rparr>"
      note disp' = disp [unfolded Inr]
      show ?thesis
      proof (cases "allow_redirects \<and> is_redirect response")
        case False
        from engine_returns [OF None disp' response_def False refl] "1.prems"
        have "history r = hist"
          by (auto simp: response_def set_history_def set_next_def split: if_splits)
        with precheck_passed [OF None] show ?thesis by simp
      next
        case True
        show ?thesis
        proof (cases "build_redirect_request env c1 request response")
          case (Inl e')
          from engine_build_raises [OF None disp' response_def c1_def True Inl] "1.prems"
          show ?thesis by simp
        next
          case (Inr request1)
          note step = engine_continues [OF None disp' response_def c1_def True Inr]
          from "1.IH" [OF None disp [symmetric] \<open>res = Inr response0\<close>
              response_def c1_def True Inr] "1.prems" step
          show ?thesis by (simp add: c1_def)
        qed
      qed
    qed
  qed
qed

text \<open>
  A TooManyRedirects that the engine raises carries the last response of a history
  that is longer than \<^verbatim>\<open>max_redirects\<close>.
\<close>

lemma too_many_redirects_raised:
  "send_handling_redirects env c request allow_redirects hist = (Inl e, c', hist') \<Longrightarrow>
   exc_class e = TooManyRedirects \<Longrightarrow>
   int (length hist') > max_redirects c \<and> hist' \<noteq> []
     \<and> e = Exc TooManyRedirects (Some (last hist')) None"
proof (induction env c request allow_redirects hist rule: send_handling_redirects.induct)
  case (1 env c request allow_redirects hist)
  show ?case
  proof (cases "precheck c request hist")
    case (Some e')
    with "1.prems"(1) have "e' = e" and "hist' = hist"
      by (simp_all add: engine_precheck)
    with Some "1.prems"(2) show ?thesis
      by (auto simp: precheck_def raise_with_last_def split: if_splits)
  next
    case None
    obtain res d where disp: "dispatch_send env (dispatch c) request = (res, d)"
      by (cases "dispatch_send env (dispatch c) request")
    show ?thesis
    proof (cases res)
      case (Inl failure)
      obtain http msg where "failure = (http, msg)" by (cases failure)
      with None disp Inl "1.prems" show ?thesis
        by (auto simp: engine_dispatch_raises)
    next
      case (Inr response0)
      define response where "response = set_history response0 hist"
      define c1 where
        "c1 = c\<lparr>dispatch := d, cookies := extract_cookies env (cookies c) response\<rparr>"
      note disp' = disp [unfolded Inr]
      show ?thesis
      proof (cases "allow_redirects \<and> is_redirect response")
        case False
        from engine_returns [OF None disp' response_def False refl] "1.prems"(1)
        show ?thesis by simp
      next
        case True
        show ?thesis
        proof (cases "build_redirect_request env c1 request response")
          case (Inl e')
          from engine_build_raises [OF None disp' response_def c1_def True Inl] "1.prems"(1)
          have "e' = e" by simp
          with build_redirect_request_failure [OF Inl] "1.prems"(2) show ?thesis by auto
        next
          case (Inr request1)
          note step = engine_continues [OF None disp' response_def c1_def True Inr]
          from "1.IH" [OF None disp [symmetric] \<open>res = Inr response0\<close>
              response_def c1_def True Inr] "1.prems" step
          show ?thesis by (simp add: c1_def)
        qed
      qed
    qed
  qed
qed

text \<open>
  Conversely, a history that is not empty and longer than \<^verbatim>\<open>max_redirects\<close> at
  the head of the loop ends the call with TooManyRedirects; and a call never leaves
  more than \<^verbatim>\<open>max_redirects + 1\<close> responses in the history.
\<close>

lemma too_many_redirects_at_precheck:
  "hist \<noteq> [] \<Longrightarrow> int (length hist) > max_redirects c \<Longrightarrow>
     send_handling_redirects env c request allow_redirects hist =
       (Inl (Exc TooManyRedirects (Some (last hist)) None), c, hist)"
  by (rule engine_precheck) (simp add: precheck_def raise_with_last_def)

lemma history_bounded:
  "send_handling_redirects env c request allow_redirects hist = (res, c', hist') \<Longrightarrow>
   int (length hist) \<le> max_redirects c + 1 \<Longrightarrow>
   int (length hist') \<le> max_redirects c + 1"
proof (induction env c request allow_redirects hist rule: send_handling_redirects.induct)
  case (1 env c request allow_redirects hist)
  show ?case
  proof (cases "precheck c request hist")
    case (Some e')
    with "1.prems" show ?thesis
      by (simp add: engine_precheck)
  next
    case None
    note passed = precheck_passed [OF None]
    obtain r d where disp: "dispatch_send env (dispatch c) request = (r, d)"
      by (cases "dispatch_send env (dispatch c) request")
    show ?thesis
    proof (cases r)
      case (Inl failure)
      obtain http msg where "failure = (http, msg)" by (cases failure)
      with None disp Inl "1.prems" show ?thesis
        by (auto simp: engine_dispatch_raises)
    next
      case (Inr response0)
      define response where "response = set_history response0 hist"
      define c1 where
        "c1 = c\<lparr>dispatch := d, cookies := extract_cookies env (cookies c) response\<rparr>"
      note disp' = disp [unfolded Inr]
      show ?thesis
      proof (cases "allow_redirects \<and> is_redirect response")
        case False
        from engine_returns [OF None disp' response_def False refl] "1.prems"(1) passed
        show ?thesis by auto
      next
        case True
        show ?thesis
        proof (cases "build_redirect_request env c1 request response")
          case (Inl e')
          from engine_build_raises [OF None disp' response_def c1_def True Inl] "1.prems"(1) passed
          show ?thesis by auto
        next
          case (Inr request1)
          note step = engine_continues [OF None disp' response_def c1_def True Inr]
          from "1.IH" [OF None disp [symmetric] \<open>r = Inr response0\<close>
              response_def c1_def True Inr] "1.prems"(1) step passed
          show ?thesis by (simp add: c1_def)
        qed
      qed
    qed
  qed
qed

text \<open>
  C5: at any iteration of the loop, when the URL of the current request is the URL of
  a response in the history, and the history is no longer than \<^verbatim>\<open>max_redirects\<close>
  (otherwise the first check has raised TooManyRedirects), the engine raises
  RedirectLoop with the last response of the history; client, dispatcher state and
  history are as they were, so the dispatcher was not called.
\<close>

theorem redirect_loop_detected:
  assumes "int (length hist) \<le> max_redirects c"
    and "req_url request \<in> set (map resp_url hist)"
  shows "send_handling_redirects env c request allow_redirects hist =
           (Inl (Exc RedirectLoop (Some (last hist)) None), c, hist)"
proof -
  from assms(2) have "hist \<noteq> []" by auto
  with assms have "precheck c request hist = Some (Exc RedirectLoop (Some (last hist)) None)"
    by (simp add: precheck_def raise_with_last_def)
  then show ?thesis by (rule engine_precheck)
qed

theorem redirect_loop_detected_witness:
  "send_handling_redirects example_env (example_client\<lparr>max_redirects := 1\<rparr>) example_request True
      [redirect_to_a1] =
     (Inl (Exc RedirectLoop (Some redirect_to_a1) None), example_client\<lparr>max_redirects := 1\<rparr>,
      [redirect_to_a1])"
  using redirect_loop_detected [of "[redirect_to_a1]" "example_client\<lparr>max_redirects := 1\<rparr>"
      example_request example_env True]
  by (simp add: example_client_def example_request_def redirect_to_a1_def)

text \<open>
  The first iteration of a call with \<^verbatim>\<open>max_redirects = 0\<close> whose request is
  answered by a redirect to its own URL: the second iteration starts with that URL
  in the history.
\<close>

lemma example_first_hop:
  "send_handling_redirects example_env example_client example_request True [] =
     send_handling_redirects example_env (example_client\<lparr>dispatch := 1\<rparr>) example_request True
       [redirect_to_a1]"
  by (subst send_handling_redirects.simps)
    (simp add: precheck_def example_client_def example_env_def example_request_def
      redirect_to_a1_def set_history_def is_redirect_def build_redirect_request_def
      redirect_method_def redirect_url_def redirect_headers_def redirect_content_def
      merge_cookies_def truthy_def origin_def url_a1_def same_name_def lower_def
      SEE_OTHER_def FOUND_def MOVED_PERMANENTLY_def Let_def)

text \<open>
  The claim C5 as it is stated, without the condition on the length of the history,
  fails at that second iteration: the request's URL is in the history, and the
  engine raises TooManyRedirects, not RedirectLoop.
\<close>

theorem redirect_loop_counterexample:
  "send_handling_redirects example_env example_client example_request True [] =
     send_handling_redirects example_env (example_client\<lparr>dispatch := 1\<rparr>) example_request True
       [redirect_to_a1]
   \<and> req_url example_request \<in> set (map resp_url [redirect_to_a1])
   \<and> send_handling_redirects example_env (example_client\<lparr>dispatch := 1\<rparr>) example_request True
       [redirect_to_a1] =
      (Inl (Exc TooManyRedirects (Some redirect_to_a1) None), example_client\<lparr>dispatch := 1\<rparr>,
       [redirect_to_a1])
   \<and> fst (send_handling_redirects example_env (example_client\<lparr>dispatch := 1\<rparr>) example_request
       True [redirect_to_a1]) \<noteq> Inl (Exc RedirectLoop (Some (last [redirect_to_a1])) None)"
proof -
  have "precheck (example_client\<lparr>dispatch := 1\<rparr>) example_request [redirect_to_a1] =
          Some (Exc TooManyRedirects (Some redirect_to_a1) None)"
    by (simp add: precheck_def raise_with_last_def example_client_def)
  then have "send_handling_redirects example_env (example_client\<lparr>dispatch := 1\<rparr>)
        example_request True [redirect_to_a1] =
      (Inl (Exc TooManyRedirects (Some redirect_to_a1) None), example_client\<lparr>dispatch := 1\<rparr>,
       [redirect_to_a1])"
    by (rule engine_precheck)
  moreover have "req_url example_request \<in> set (map resp_url [redirect_to_a1])"
    by (simp add: example_request_def redirect_to_a1_def)
  ultimately show ?thesis using example_first_hop by simp
qed

text \<open>
  C10: a precheck that fires builds its failure from \<^verbatim>\<open>history[-1]\<close>, the last
  response of the history. With \<^verbatim>\<open>max_redirects\<close> at least 0 and an empty history
  at entry, no precheck fires in the first iteration, and no \<^verbatim>\<open>history[-1]\<close> of
  the whole call fails (the call never ends in the IndexError). With
  \<^verbatim>\<open>max_redirects\<close> below 0, the first iteration takes the TooManyRedirects branch
  with the history empty.
\<close>

theorem history_last_access:
  "(precheck c request hist = Some e \<longrightarrow>
      (e = raise_with_last TooManyRedirects hist \<or> e = raise_with_last RedirectLoop hist)
      \<and> (hist \<noteq> [] \<longrightarrow> exc_response e = Some (last hist)))
   \<and> (0 \<le> max_redirects c \<longrightarrow>
        precheck c request [] = None
        \<and> (\<forall>e'. fst (send_handling_redirects env c request allow_redirects []) = Inl e'
              \<longrightarrow> exc_class e' \<noteq> IndexError))
   \<and> (max_redirects c < 0 \<longrightarrow>
        precheck c request [] = Some (raise_with_last TooManyRedirects [])
        \<and> send_handling_redirects env c request allow_redirects [] =
            (Inl (Exc IndexError None None), c, []))"
proof (intro conjI impI allI)
  assume "precheck c request hist = Some e"
  then show "e = raise_with_last TooManyRedirects hist \<or> e = raise_with_last RedirectLoop hist"
    by (auto simp: precheck_def split: if_splits)
next
  assume "precheck c request hist = Some e" and "hist \<noteq> []"
  then show "exc_response e = Some (last hist)"
    by (auto dest: precheck_fires)
next
  assume "0 \<le> max_redirects c"
  then show "precheck c request [] = None" by (rule precheck_first_hop)
next
  fix e'
  assume "0 \<le> max_redirects c"
    and "fst (send_handling_redirects env c request allow_redirects []) = Inl e'"
  then show "exc_class e' \<noteq> IndexError"
    using no_index_error [of c "[]" env request allow_redirects e'] by simp
next
  assume "max_redirects c < 0"
  then show "precheck c request [] = Some (raise_with_last TooManyRedirects [])"
    by (simp add: precheck_def)
next
  assume "max_redirects c < 0"
  then have "precheck c request [] = Some (Exc IndexError None None)"
    by (simp add: precheck_def raise_with_last_def)
  then show "send_handling_redirects env c request allow_redirects [] =
      (Inl (Exc IndexError None None), c, [])"
    by (rule engine_precheck)
qed

theorem history_last_access_witness:
  "precheck example_client example_request [redirect_to_a1]
     = Some (Exc TooManyRedirects (Some redirect_to_a1) None)
   \<and> exc_response (Exc TooManyRedirects (Some redirect_to_a1) None) = Some (last [redirect_to_a1])
   \<and> precheck example_client example_request [] = None
   \<and> fst (send_handling_redirects example_env example_client example_request True [])
       \<noteq> Inl (Exc IndexError None None)
   \<and> send_handling_redirects example_env (example_client\<lparr>max_redirects := - 5\<rparr>) example_request
       True [] = (Inl (Exc IndexError None None), example_client\<lparr>max_redirects := - 5\<rparr>, [])"
  using history_last_access [of example_client example_request "[redirect_to_a1]"
      "Exc TooManyRedirects (Some redirect_to_a1) None" example_env True]
    history_last_access [of "example_client\<lparr>max_redirects := - 5\<rparr>" example_request "[]"
      "Exc IndexError None None" example_env True]
  by (auto simp: precheck_def raise_with_last_def example_client_def)

text \<open>
  C1: the engine is to raise TooManyRedirects exactly when the history is longer
  than \<^verbatim>\<open>max_redirects\<close> at a precheck. A client with \<^verbatim>\<open>max_redirects = -1\<close>,
  called with no history, meets that condition in the first iteration, and the call
  ends in the IndexError of \<^verbatim>\<open>history[-1]\<close> instead, whatever the request and the
  dispatcher, which is not called.
\<close>

theorem negative_cap_index_error:
  "send_handling_redirects env (c\<lparr>max_redirects := - 1\<rparr>) request allow_redirects [] =
     (Inl (Exc IndexError None None), c\<lparr>max_redirects := - 1\<rparr>, [])"
  by (rule engine_precheck) (simp add: precheck_def raise_with_last_def)

theorem negative_cap_index_error_witness:
  "send_handling_redirects example_env (example_client\<lparr>max_redirects := - 1\<rparr>) example_request
      True [] =
     (Inl (Exc IndexError None None), example_client\<lparr>max_redirects := - 1\<rparr>, [])"
  using negative_cap_index_error [of example_env example_client example_request True]
  by simp

section \<open>Merging headers\<close>
















section \<open>Merging the URL\<close>




section \<open>The send pipeline: the request attached to a failure\<close>





section \<open>The send pipeline: the order of the auth resolution\<close>

lemma first_some_cons: "first_some (x # rest) = (case x of None \<Rightarrow> first_some rest | Some a \<Rightarrow> Some a)"
  by (cases x) simp_all

text \<open>
  C8: the auth of a call to \<^verbatim>\<open>send\<close> is the first of: the per-call auth; the
  client's default auth; Basic auth from the user-info of the request URL when it
  has a username or a password; when the effective trust-env flag (the per-call one
  if given, the client's otherwise) is true, Basic auth from the netrc entry of the
  URL's authority; and no auth at all otherwise, which leaves the request as it is.
  A 2-tuple is applied as the Basic auth of its two components. A call with an http
  or https URL hands the request so transformed to the rest of the pipeline.
\<close>

theorem send_auth_order:
  "resolve_auth env c request auth_arg trust_env_arg = auth_order env c request auth_arg trust_env_arg
   \<and> apply_auth env (Some (AuthTuple user pass)) request
       = apply_auth env (Some (HTTPBasicAuth user pass)) request
   \<and> apply_auth env None request = request
   \<and> (scheme (req_url request) = ''http'' \<or> scheme (req_url request) = ''https'' \<longrightarrow>
        send env c request stream auth_arg allow_redirects trust_env_arg =
          send_prepared env c
            (apply_auth env (auth_order env c request auth_arg trust_env_arg) request)
            stream allow_redirects)"
proof -
  have "resolve_auth env c request auth_arg trust_env_arg = auth_order env c request auth_arg trust_env_arg"
    by (auto simp: resolve_auth_def auth_order_def userinfo_auth_def netrc_auth_def
        effective_trust_env_def first_some_cons Let_def split: option.splits)
  then show ?thesis
    by (auto simp: apply_auth_def send_def)
qed

theorem send_auth_order_witness:
  "resolve_auth example_env (example_client\<lparr>auth := Some (AuthTuple ''admin'' ''secret'')\<rparr>)
      (example_request\<lparr>req_url := url_alice\<rparr>) None None = Some (AuthTuple ''admin'' ''secret'')
   \<and> resolve_auth example_env example_client (example_request\<lparr>req_url := url_alice\<rparr>) None None
       = Some (HTTPBasicAuth ''alice'' ''wonder'')
   \<and> resolve_auth example_env example_client (example_request\<lparr>req_url := url_c2\<rparr>) None None
       = Some (HTTPBasicAuth ''bob'' ''builder'')
   \<and> resolve_auth example_env example_client (example_request\<lparr>req_url := url_c2\<rparr>) None (Some False)
       = None
   \<and> send example_env example_client (example_request\<lparr>req_url := url_c2\<rparr>) True None True (Some False)
       = send_prepared example_env example_client (example_request\<lparr>req_url := url_c2\<rparr>) True True"
  using send_auth_order [of example_env "example_client\<lparr>auth := Some (AuthTuple ''admin'' ''secret'')\<rparr>"
      "example_request\<lparr>req_url := url_alice\<rparr>" None None]
    send_auth_order [of example_env example_client "example_request\<lparr>req_url := url_alice\<rparr>" None None]
    send_auth_order [of example_env example_client "example_request\<lparr>req_url := url_c2\<rparr>" None None]
    send_auth_order [of example_env example_client "example_request\<lparr>req_url := url_c2\<rparr>" None "Some False"
      _ _ True True]
  by (simp add: auth_order_def userinfo_auth_def netrc_auth_def effective_trust_env_def
      example_client_def example_env_def url_alice_def url_a1_def url_c2_def apply_auth_def)

text \<open>
  The claim C8 as it is stated has no place for the client's default auth: for a
  client with a default auth and a URL with user-info it names the user-info, and
  \<^verbatim>\<open>send\<close> takes the client's default.
\<close>

theorem send_auth_order_counterexample:
  "resolve_auth example_env (example_client\<lparr>auth := Some (AuthTuple ''admin'' ''secret'')\<rparr>)
      (example_request\<lparr>req_url := url_alice\<rparr>) None None = Some (AuthTuple ''admin'' ''secret'')
   \<and> auth_order_without_default example_env (example_client\<lparr>auth := Some (AuthTuple ''admin'' ''secret'')\<rparr>)
      (example_request\<lparr>req_url := url_alice\<rparr>) None None = Some (HTTPBasicAuth ''alice'' ''wonder'')
   \<and> resolve_auth example_env (example_client\<lparr>auth := Some (AuthTuple ''admin'' ''secret'')\<rparr>)
      (example_request\<lparr>req_url := url_alice\<rparr>) None None
     \<noteq> auth_order_without_default example_env (example_client\<lparr>auth := Some (AuthTuple ''admin'' ''secret'')\<rparr>)
      (example_request\<lparr>req_url := url_alice\<rparr>) None None"
  by (simp add: resolve_auth_def auth_order_without_default_def userinfo_auth_def
      url_alice_def url_a1_def)

end
